theory Spec2Isabelle
  imports Main
begin

section \<open>S3ToRedshiftOperator: data model\<close>

text \<open>
  A shallow embedding of \<^verbatim>\<open>airflow/providers/amazon/aws/transfers/s3_to_redshift.py\<close>.
  Python strings are \<open>string\<close>; \<open>None\<close>-able arguments are \<open>option\<close>s; a raised
  exception is the \<open>Inl\<close> of a sum. The hooks the operator talks to (the S3 hook, the
  two Redshift hooks, \<^verbatim>\<open>build_credentials_block\<close>) are not part of this file of the
  repository: they are the fields of an environment record, and every call the operator
  makes to them is recorded, in order, in a trace of events.
\<close>

datatype error =
    AirflowException string
  | CollaboratorError string  \<comment> \<open>any exception a hook call raises; it propagates unchanged\<close>

datatype pyval = PyNone | PyBool bool | PyInt int | PyStr string

type_synonym kwargs = "(string \<times> pyval) list"

text \<open>\<^verbatim>\<open>sql: str | Iterable[str]\<close>: APPEND hands over a bare string, the others a list.\<close>

datatype sql = SqlStr string | SqlList "string list"

record credentials =
  access_key :: string
  secret_key :: string
  token :: "string option"

record operator =
  schema :: "string option"
  table :: string
  s3_bucket :: string
  s3_key :: string
  redshift_conn_id :: string
  aws_conn_id :: "string option"
  verify :: "(bool + string) option"
  column_list :: "string list option"
  copy_options :: "string list"
  autocommit :: bool
  load_method :: string  \<comment> \<open>the field \<^verbatim>\<open>method\<close>\<close>
  upsert_keys :: "string list option"
  redshift_data_api_kwargs :: kwargs

text \<open>The keyword arguments of \<^verbatim>\<open>__init__\<close>, before its defaults are applied.\<close>

record init_args =
  arg_table :: string
  arg_s3_bucket :: string
  arg_s3_key :: string
  arg_schema :: "string option"
  arg_redshift_conn_id :: string
  arg_aws_conn_id :: "string option"
  arg_verify :: "(bool + string) option"
  arg_column_list :: "string list option"
  arg_copy_options :: "string list option"
  arg_autocommit :: bool
  arg_method :: string
  arg_upsert_keys :: "string list option"
  arg_redshift_data_api_kwargs :: "kwargs option"

datatype event =
    NewRedshiftDataHook string
  | NewRedshiftSQLHook string
  | S3GetConnection string
  | NewS3Hook "string option" "(bool + string) option"
  | S3GetCredentials
  | DataGetTablePrimaryKey string "string option" kwargs
  | SqlGetTablePrimaryKey string "string option"
  | LogInfo string
  | DataExecuteQuery sql kwargs
  | SqlRun sql bool

text \<open>
  The collaborators. \<open>get_connection\<close> answers with the connection's \<^verbatim>\<open>extra_dejson\<close>
  (the extras read here, \<^verbatim>\<open>region\<close> and \<^verbatim>\<open>role_arn\<close>, are JSON strings);
  \<open>get_credentials\<close> stands for \<^verbatim>\<open>S3Hook(aws_conn_id, verify).get_credentials()\<close>.
  A call that raises, for whatever reason, answers \<open>Inl\<close>.
\<close>

record env =
  get_connection :: "string \<Rightarrow> error + (string \<times> string) list"
  get_credentials :: "string option \<Rightarrow> (bool + string) option \<Rightarrow> error + credentials"
  build_credentials_block :: "credentials \<Rightarrow> string"
  data_get_table_primary_key :: "string \<Rightarrow> string option \<Rightarrow> kwargs \<Rightarrow> error + string list option"
  sql_get_table_primary_key :: "string \<Rightarrow> string option \<Rightarrow> error + string list option"
  data_execute_query :: "sql \<Rightarrow> kwargs \<Rightarrow> error + unit"
  sql_run :: "sql \<Rightarrow> bool \<Rightarrow> error + unit"

section \<open>Python helpers\<close>

text \<open>\<^verbatim>\<open>sep.join(xs)\<close>.\<close>

fun str_join :: "string \<Rightarrow> string list \<Rightarrow> string" where
  "str_join sep [] = []"
| "str_join sep [x] = x"
| "str_join sep (x # y # ys) = x @ sep @ str_join sep (y # ys)"

text \<open>An optional string inside an f-string: \<^verbatim>\<open>None\<close> prints as \<^verbatim>\<open>None\<close>.\<close>

definition str_opt :: "string option \<Rightarrow> string" where
  "str_opt s = (case s of None \<Rightarrow> ''None'' | Some v \<Rightarrow> v)"

text \<open>Truthiness of an optional string and of an optional list: \<open>None\<close> and empty are false.\<close>

definition truthy :: "'a list option \<Rightarrow> bool" where
  "truthy v = (case v of None \<Rightarrow> False | Some xs \<Rightarrow> xs \<noteq> [])"

section \<open>Construction\<close>

definition AVAILABLE_METHODS :: "string list" where
  "AVAILABLE_METHODS = [''APPEND'', ''REPLACE'', ''UPSERT'']"

text \<open>The loop \<^verbatim>\<open>for arg in ["sql", "parameters"]\<close> of \<^verbatim>\<open>__init__\<close>.\<close>

fun check_reserved :: "string list \<Rightarrow> kwargs \<Rightarrow> error option" where
  "check_reserved [] kw = None"
| "check_reserved (arg # args) kw =
     (if arg \<in> set (map fst kw)
      then Some (AirflowException
        (''Cannot include param '' @ [CHR 0x27] @ arg @ [CHR 0x27] @ '' in Redshift Data API kwargs''))
      else check_reserved args kw)"

definition init :: "init_args \<Rightarrow> error + operator" where
  "init a =
     (let self = \<lparr> schema = arg_schema a,
                   table = arg_table a,
                   s3_bucket = arg_s3_bucket a,
                   s3_key = arg_s3_key a,
                   redshift_conn_id = arg_redshift_conn_id a,
                   aws_conn_id = arg_aws_conn_id a,
                   verify = arg_verify a,
                   column_list = arg_column_list a,
                   copy_options = (case arg_copy_options a of None \<Rightarrow> [] | Some os \<Rightarrow> os),
                   autocommit = arg_autocommit a,
                   load_method = arg_method a,
                   upsert_keys = arg_upsert_keys a,
                   redshift_data_api_kwargs =
                     (case arg_redshift_data_api_kwargs a of None \<Rightarrow> [] | Some kw \<Rightarrow> kw) \<rparr>
      in if redshift_data_api_kwargs self \<noteq> []
         then (case check_reserved [''sql'', ''parameters''] (redshift_data_api_kwargs self) of
                 Some e \<Rightarrow> Inl e
               | None \<Rightarrow> Inr self)
         else Inr self)"

definition use_redshift_data :: "operator \<Rightarrow> bool" where
  "use_redshift_data self = (redshift_data_api_kwargs self \<noteq> [])"

section \<open>The COPY statement\<close>

definition column_names :: "operator \<Rightarrow> string" where
  "column_names self =
     (case column_list self of
        None \<Rightarrow> ''''
      | Some cl \<Rightarrow> if cl \<noteq> [] then ''('' @ str_join '', '' cl @ '')'' else '''')"

definition build_copy_query :: "operator \<Rightarrow> string \<Rightarrow> string \<Rightarrow> string \<Rightarrow> string \<Rightarrow> string" where
  "build_copy_query self copy_destination credentials_block region_info copy_options_str =
     ''\<newline>                    COPY '' @ copy_destination @ '' '' @ column_names self @
     ''\<newline>                    FROM 's3://'' @ s3_bucket self @ ''/'' @ s3_key self @ [CHR 0x27] @
     ''\<newline>                    credentials'' @
     ''\<newline>                    '' @ [CHR 0x27] @ credentials_block @ [CHR 0x27] @
     ''\<newline>                    '' @ region_info @
     ''\<newline>                    '' @ copy_options_str @ '';'' @
     ''\<newline>        ''"

section \<open>Execution\<close>

text \<open>Lines 152 to 161: the connection, the region clause and the credentials clause.\<close>

definition fetch_conn :: "env \<Rightarrow> operator \<Rightarrow> event list \<times> (error + (string \<times> string) list option)" where
  "fetch_conn e self =
     (case aws_conn_id self of
        None \<Rightarrow> ([], Inr None)
      | Some cid \<Rightarrow>
          if cid \<noteq> []
          then ([S3GetConnection cid],
                (case get_connection e cid of Inl err \<Rightarrow> Inl err | Inr ex \<Rightarrow> Inr (Some ex)))
          else ([], Inr None))"

text \<open>\<^verbatim>\<open>conn and conn.extra_dejson.get(key, False)\<close>: the value when it is truthy.\<close>

definition extra_get :: "(string \<times> string) list option \<Rightarrow> string \<Rightarrow> string option" where
  "extra_get conn key =
     (case conn of
        None \<Rightarrow> None
      | Some ex \<Rightarrow> (case map_of ex key of
                     None \<Rightarrow> None
                   | Some v \<Rightarrow> if v \<noteq> [] then Some v else None))"

definition region_info_of :: "(string \<times> string) list option \<Rightarrow> string" where
  "region_info_of conn =
     (case extra_get conn ''region'' of
        None \<Rightarrow> ''''
      | Some r \<Rightarrow> ''region '' @ [CHR 0x27] @ r @ [CHR 0x27])"

definition resolve_credentials :: "env \<Rightarrow> operator \<Rightarrow> event list \<times> (error + string \<times> string)" where
  "resolve_credentials e self =
     (case fetch_conn e self of
        (ev, Inl err) \<Rightarrow> (ev, Inl err)
      | (ev, Inr conn) \<Rightarrow>
          (let region_info = region_info_of conn
           in case extra_get conn ''role_arn'' of
                Some arn \<Rightarrow> (ev, Inr (region_info, ''aws_iam_role='' @ arn))
              | None \<Rightarrow>
                  (ev @ [NewS3Hook (aws_conn_id self) (verify self), S3GetCredentials],
                   (case get_credentials e (aws_conn_id self) (verify self) of
                      Inl err \<Rightarrow> Inl err
                    | Inr creds \<Rightarrow> Inr (region_info, build_credentials_block e creds)))))"

text \<open>Lines 163 to 169.\<close>

definition destination_of :: "operator \<Rightarrow> string" where
  "destination_of self =
     (if truthy (schema self) then str_opt (schema self) @ ''.'' @ table self else table self)"

definition copy_destination_of :: "operator \<Rightarrow> string" where
  "copy_destination_of self =
     (if load_method self = ''UPSERT'' then ''#'' @ table self else destination_of self)"

definition copy_statement_of :: "operator \<Rightarrow> string \<Rightarrow> string \<Rightarrow> string" where
  "copy_statement_of self region_info credentials_block =
     build_copy_query self (copy_destination_of self) credentials_block region_info
       (str_join (''\<newline>'' @ [CHR 0x09, CHR 0x09, CHR 0x09]) (copy_options self))"

text \<open>Lines 176 to 181: \<^verbatim>\<open>self.upsert_keys or hook.get_table_primary_key(...)\<close>.\<close>

definition discover_keys :: "env \<Rightarrow> operator \<Rightarrow> event list \<times> (error + string list option)" where
  "discover_keys e self =
     (if use_redshift_data self
      then ([DataGetTablePrimaryKey (table self) (schema self) (redshift_data_api_kwargs self)],
            data_get_table_primary_key e (table self) (schema self) (redshift_data_api_kwargs self))
      else ([SqlGetTablePrimaryKey (table self) (schema self)],
            sql_get_table_primary_key e (table self) (schema self)))"

definition resolve_keys :: "env \<Rightarrow> operator \<Rightarrow> event list \<times> (error + string list option)" where
  "resolve_keys e self =
     (if truthy (upsert_keys self) then ([], Inr (upsert_keys self)) else discover_keys e self)"

text \<open>Lines 173 to 198: the statements, by method.\<close>

definition where_statement :: "operator \<Rightarrow> string list \<Rightarrow> string" where
  "where_statement self keys =
     str_join '' AND ''
       (map (\<lambda>k. table self @ ''.'' @ k @ '' = '' @ copy_destination_of self @ ''.'' @ k) keys)"

definition plan_sql :: "env \<Rightarrow> operator \<Rightarrow> string \<Rightarrow> event list \<times> (error + sql)" where
  "plan_sql e self copy_statement =
     (if load_method self = ''REPLACE''
      then ([], Inr (SqlList [''BEGIN;'', ''DELETE FROM '' @ destination_of self @ '';'',
                             copy_statement, ''COMMIT'']))
      else if load_method self = ''UPSERT''
      then (case resolve_keys e self of
              (ev, Inl err) \<Rightarrow> (ev, Inl err)
            | (ev, Inr keys) \<Rightarrow>
                if \<not> truthy keys
                then (ev, Inl (AirflowException
                       (''No primary key on '' @ str_opt (schema self) @ ''.'' @ table self @
                        ''. Please provide keys on '' @ [CHR 0x27] @ ''upsert_keys'' @ [CHR 0x27])))
                else (ev, Inr (SqlList
                       [''CREATE TABLE '' @ copy_destination_of self @ '' (LIKE '' @
                          destination_of self @ '' INCLUDING DEFAULTS);'',
                        copy_statement,
                        ''BEGIN;'',
                        ''DELETE FROM '' @ destination_of self @ '' USING '' @
                          copy_destination_of self @ '' WHERE '' @
                          where_statement self (case keys of None \<Rightarrow> [] | Some ks \<Rightarrow> ks) @ '';'',
                        ''INSERT INTO '' @ destination_of self @ '' SELECT * FROM '' @
                          copy_destination_of self @ '';'',
                        ''COMMIT''])))
      else ([], Inr (SqlStr copy_statement)))"

text \<open>Lines 200 to 205: the submission, between the two log lines.\<close>

definition submit :: "env \<Rightarrow> operator \<Rightarrow> sql \<Rightarrow> event list \<times> (error + unit)" where
  "submit e self q =
     (let call = (if use_redshift_data self
                  then DataExecuteQuery q (redshift_data_api_kwargs self)
                  else SqlRun q (autocommit self));
          res = (if use_redshift_data self
                 then data_execute_query e q (redshift_data_api_kwargs self)
                 else sql_run e q (autocommit self))
      in case res of
           Inl err \<Rightarrow> ([LogInfo ''Executing COPY command...'', call], Inl err)
         | Inr u \<Rightarrow> ([LogInfo ''Executing COPY command...'', call,
                      LogInfo ''COPY command complete...''], Inr ()))"

text \<open>Lines 163 to 205, once the region and credentials clauses are known.\<close>

definition load :: "env \<Rightarrow> operator \<Rightarrow> string \<Rightarrow> string \<Rightarrow> event list \<times> (error + unit)" where
  "load e self region_info credentials_block =
     (case plan_sql e self (copy_statement_of self region_info credentials_block) of
        (ev, Inl err) \<Rightarrow> (ev, Inl err)
      | (ev, Inr q) \<Rightarrow> (case submit e self q of (ev', res) \<Rightarrow> (ev @ ev', res)))"

text \<open>Lines 147 to 150: the warehouse hook, chosen by \<^verbatim>\<open>use_redshift_data\<close>.\<close>

definition new_hook :: "operator \<Rightarrow> event" where
  "new_hook self =
     (if use_redshift_data self
      then NewRedshiftDataHook (redshift_conn_id self)
      else NewRedshiftSQLHook (redshift_conn_id self))"

definition execute :: "env \<Rightarrow> operator \<Rightarrow> event list \<times> (error + unit)" where
  "execute e self =
     (if load_method self \<notin> set AVAILABLE_METHODS
      then ([], Inl (AirflowException
             ''Method not found! Available methods: ['APPEND', 'REPLACE', 'UPSERT']''))
      else
        (case resolve_credentials e self of
           (ev, Inl err) \<Rightarrow> (new_hook self # ev, Inl err)
         | (ev, Inr (region_info, credentials_block)) \<Rightarrow>
             (case load e self region_info credentials_block of
                (ev', res) \<Rightarrow> (new_hook self # ev @ ev', res))))"

section \<open>Reading a trace\<close>

text \<open>The statements handed to the warehouse, in the order of the calls.\<close>

fun submitted :: "event list \<Rightarrow> sql list" where
  "submitted [] = []"
| "submitted (DataExecuteQuery q kw # es) = q # submitted es"
| "submitted (SqlRun q a # es) = q # submitted es"
| "submitted (x # es) = submitted es"

text \<open>Whether the S3 hook was built or asked for static credentials.\<close>

fun static_credentials_fetched :: "event list \<Rightarrow> bool" where
  "static_credentials_fetched [] = False"
| "static_credentials_fetched (NewS3Hook cid v # es) = True"
| "static_credentials_fetched (S3GetCredentials # es) = True"
| "static_credentials_fetched (x # es) = static_credentials_fetched es"

text \<open>The statements of one submission: a bare string is one statement.\<close>

fun statements :: "sql \<Rightarrow> string list" where
  "statements (SqlStr s) = [s]"
| "statements (SqlList ss) = ss"

section \<open>Reading a COPY statement back\<close>

text \<open>
  The operator has no parser. The round-trip property of the specification speaks of
  re-parsing the destination, the bucket and the key prefix out of the compiled text, for
  inputs free of the characters the template uses as delimiters. The definitions of this
  section follow those words, not the source: skip the fixed header up to \<^verbatim>\<open>COPY\<close>,
  read the destination up to the next space, skip to the end of the line and over
  \<^verbatim>\<open>FROM 's3://\<close>, read the bucket up to the slash that ends it and the key prefix up
  to the closing quote.

  The delimiter characters are the quotes and the whitespace. After the \<^verbatim>\<open>s3://\<close>
  separator the bucket ends at the first slash, so a bucket has no slash either; a key
  prefix or a destination may hold slashes and colons.
\<close>

definition delimiter_chars :: "char list" where
  "delimiter_chars =
     [CHR 0x27, CHR 0x22, CHR '' '', CHR 0x09, CHR 0x0A, CHR 0x0B, CHR 0x0C, CHR 0x0D]"

definition delimiter_free :: "string \<Rightarrow> bool" where
  "delimiter_free s = list_all (\<lambda>c. c \<notin> set delimiter_chars) s"

definition reparse_destination :: "string \<Rightarrow> string" where
  "reparse_destination text = takeWhile (\<lambda>c. c \<noteq> CHR '' '') (drop 26 text)"

definition reparse_source :: "string \<Rightarrow> string" where
  "reparse_source text = drop 32 (dropWhile (\<lambda>c. c \<noteq> CHR 0x0A) (drop 26 text))"

definition reparse_bucket :: "string \<Rightarrow> string" where
  "reparse_bucket text = takeWhile (\<lambda>c. c \<noteq> CHR ''/'') (reparse_source text)"

definition reparse_key_prefix :: "string \<Rightarrow> string" where
  "reparse_key_prefix text =
     takeWhile (\<lambda>c. c \<noteq> CHR 0x27)
       (drop 1 (dropWhile (\<lambda>c. c \<noteq> CHR ''/'') (reparse_source text)))"

section \<open>A concrete warehouse and a concrete load\<close>

text \<open>Used to run the theorems below on an actual input.\<close>

definition example_env :: env where
  "example_env =
     \<lparr> get_connection = (\<lambda>cid. if cid = ''aws_default'' then Inr [(''region'', ''eu-west-1'')]
                               else if cid = ''aws_role'' then Inr [(''role_arn'', ''arn:aws:iam::1:role/load'')]
                               else Inl (CollaboratorError ''connection not found'')),
       get_credentials = (\<lambda>cid v. Inr \<lparr> access_key = ''AK'', secret_key = ''SK'', token = None \<rparr>),
       build_credentials_block = (\<lambda>c. ''aws_access_key_id='' @ access_key c @ '';aws_secret_access_key='' @ secret_key c),
       data_get_table_primary_key = (\<lambda>t s kw. Inr None),
       sql_get_table_primary_key = (\<lambda>t s. Inr (Some [])),
       data_execute_query = (\<lambda>q kw. Inr ()),
       sql_run = (\<lambda>q a. Inr ()) \<rparr>"

definition orders_op :: operator where
  "orders_op =
     \<lparr> schema = Some ''public'', table = ''orders'', s3_bucket = ''lake'', s3_key = ''orders/2024'',
       redshift_conn_id = ''redshift_default'', aws_conn_id = Some ''aws_default'', verify = None,
       column_list = None, copy_options = [], autocommit = False, load_method = ''UPSERT'',
       upsert_keys = Some [''id''], redshift_data_api_kwargs = [] \<rparr>"

definition orders_args :: init_args where
  "orders_args =
     \<lparr> arg_table = ''orders'', arg_s3_bucket = ''lake'', arg_s3_key = ''orders/2024'',
       arg_schema = Some ''public'', arg_redshift_conn_id = ''redshift_default'',
       arg_aws_conn_id = Some ''aws_default'', arg_verify = None, arg_column_list = None,
       arg_copy_options = None, arg_autocommit = False, arg_method = ''APPEND'',
       arg_upsert_keys = None, arg_redshift_data_api_kwargs = None \<rparr>"

section \<open>Properties of the trace\<close>

lemma submitted_append: "submitted (xs @ ys) = submitted xs @ submitted ys"
  by (induction xs rule: submitted.induct) simp_all

lemma submitted_fetch_conn: "submitted (fst (fetch_conn e self)) = []"
  by (simp add: fetch_conn_def split: option.split)

lemma submitted_resolve_credentials: "submitted (fst (resolve_credentials e self)) = []"
proof (cases "fetch_conn e self")
  case (Pair ev r)
  with submitted_fetch_conn [of e self] have "submitted ev = []" by simp
  with Pair show ?thesis
    by (simp add: resolve_credentials_def Let_def submitted_append split: sum.split option.split)
qed

lemma submitted_discover_keys: "submitted (fst (discover_keys e self)) = []"
  by (simp add: discover_keys_def)

lemma submitted_resolve_keys: "submitted (fst (resolve_keys e self)) = []"
  by (simp add: resolve_keys_def submitted_discover_keys)

lemma submitted_submit: "submitted (fst (submit e self q)) = [q]"
  by (simp add: submit_def Let_def split: sum.split)

lemma execute_valid:
  assumes "load_method self \<in> set AVAILABLE_METHODS"
    and "resolve_credentials e self = (ev, Inr (r, c))"
  shows "execute e self = (new_hook self # ev @ fst (load e self r c), snd (load e self r c))"
  using assms by (simp add: execute_def split: prod.split)

lemma submitted_new_hook: "submitted (new_hook self # es) = submitted es"
  by (simp add: new_hook_def)

lemma submitted_execute_valid:
  assumes "load_method self \<in> set AVAILABLE_METHODS"
    and "resolve_credentials e self = (ev, Inr (r, c))"
  shows "submitted (fst (execute e self)) = submitted (fst (load e self r c))"
proof -
  from submitted_resolve_credentials [of e self] assms(2) have "submitted ev = []" by simp
  then show ?thesis
    by (simp add: execute_valid [OF assms] submitted_new_hook submitted_append)
qed

lemma load_planned:
  assumes "plan_sql e self (copy_statement_of self r c) = (ev, Inr q)"
  shows "submitted (fst (load e self r c)) = submitted ev @ [q]"
proof (cases "submit e self q")
  case (Pair ev' res)
  with submitted_submit [of e self q] have "submitted ev' = [q]" by simp
  with Pair assms show ?thesis by (simp add: load_def submitted_append)
qed

lemma load_failed:
  assumes "plan_sql e self (copy_statement_of self r c) = (ev, Inl err)"
  shows "load e self r c = (ev, Inl err)"
  using assms by (simp add: load_def)

lemma example_credentials:
  "resolve_credentials example_env orders_op =
     ([S3GetConnection ''aws_default'', NewS3Hook (Some ''aws_default'') None, S3GetCredentials],
      Inr (''region 'eu-west-1'' @ [CHR 0x27], ''aws_access_key_id=AK;aws_secret_access_key=SK''))"
  by (simp add: resolve_credentials_def fetch_conn_def example_env_def orders_op_def
      region_info_of_def extra_get_def)

lemma check_reserved_sql_parameters:
  "check_reserved [''sql'', ''parameters''] kw =
     (if ''sql'' \<in> set (map fst kw)
      then Some (AirflowException
        (''Cannot include param '' @ [CHR 0x27] @ ''sql'' @ [CHR 0x27] @ '' in Redshift Data API kwargs''))
      else if ''parameters'' \<in> set (map fst kw)
      then Some (AirflowException
        (''Cannot include param '' @ [CHR 0x27] @ ''parameters'' @ [CHR 0x27] @ '' in Redshift Data API kwargs''))
      else None)"
  by simp

lemma no_keys_fails:
  assumes "load_method self = ''UPSERT''" and "\<not> truthy (upsert_keys self)"
    and "snd (discover_keys e self) = Inr ks" and "\<not> truthy ks"
    and "resolve_credentials e self = (ev, Inr (region_info, credentials_block))"
  shows "execute e self =
           (new_hook self # ev @ fst (discover_keys e self),
            Inl (AirflowException
              (''No primary key on '' @ str_opt (schema self) @ ''.'' @ table self @
               ''. Please provide keys on '' @ [CHR 0x27] @ ''upsert_keys'' @ [CHR 0x27])))"
proof -
  from assms(1) have m: "load_method self \<in> set AVAILABLE_METHODS"
    by (simp add: AVAILABLE_METHODS_def)
  from assms(2) have rk: "resolve_keys e self = discover_keys e self"
    by (simp add: resolve_keys_def)
  from assms(3) have dk: "discover_keys e self = (fst (discover_keys e self), Inr ks)"
    by (metis prod.collapse)
  have "plan_sql e self (copy_statement_of self region_info credentials_block) =
      (fst (discover_keys e self),
       Inl (AirflowException
              (''No primary key on '' @ str_opt (schema self) @ ''.'' @ table self @
               ''. Please provide keys on '' @ [CHR 0x27] @ ''upsert_keys'' @ [CHR 0x27])))"
    using assms(1,4) by (subst plan_sql_def, subst rk, subst dk) simp
  from load_failed [OF this] execute_valid [OF m assms(5)] show ?thesis by simp
qed

lemma upsert_trace_starts_with_lookup:
  assumes "load_method self = ''UPSERT''" and "\<not> truthy (upsert_keys self)"
  shows "\<exists>rest. fst (load e self r c) = fst (discover_keys e self) @ rest"
proof -
  from assms(2) have rk: "resolve_keys e self = discover_keys e self"
    by (simp add: resolve_keys_def)
  obtain evd res where dk: "discover_keys e self = (evd, res)" by (cases "discover_keys e self")
  show ?thesis
  proof (cases "plan_sql e self (copy_statement_of self r c)")
    case (Pair evp resp)
    with assms(1) rk dk have evp: "evp = evd"
      by (auto simp: plan_sql_def split: sum.splits if_splits)
    show ?thesis
    proof (cases resp)
      case (Inl err)
      with Pair evp dk show ?thesis by (simp add: load_def)
    next
      case (Inr q)
      with Pair evp dk show ?thesis by (cases "submit e self q") (simp add: load_def)
    qed
  qed
qed

lemma execute_ignores_empty_keys:
  "execute e (self\<lparr>upsert_keys := Some []\<rparr>) = execute e (self\<lparr>upsert_keys := None\<rparr>)"
proof -
  let ?a = "self\<lparr>upsert_keys := Some []\<rparr>" and ?b = "self\<lparr>upsert_keys := None\<rparr>"
  have rc: "resolve_credentials e ?a = resolve_credentials e ?b"
    by (simp add: resolve_credentials_def fetch_conn_def Let_def
        cong: option.case_cong sum.case_cong prod.case_cong)
  have nh: "new_hook ?a = new_hook ?b" by (simp add: new_hook_def use_redshift_data_def)
  have d: "destination_of ?a = destination_of ?b" by (simp add: destination_of_def)
  have cd: "copy_destination_of ?a = copy_destination_of ?b"
    by (simp add: copy_destination_of_def d)
  have cs: "copy_statement_of ?a r c = copy_statement_of ?b r c" for r c
    by (simp add: copy_statement_of_def cd build_copy_query_def column_names_def)
  have rk: "resolve_keys e ?a = resolve_keys e ?b"
    by (simp add: resolve_keys_def truthy_def discover_keys_def use_redshift_data_def)
  have ws: "where_statement ?a ks = where_statement ?b ks" for ks
    by (simp add: where_statement_def cd)
  have pl: "plan_sql e ?a s = plan_sql e ?b s" for s
    by (simp add: plan_sql_def rk d cd ws cong: prod.case_cong sum.case_cong if_cong)
  have sb: "submit e ?a q = submit e ?b q" for q
    by (simp add: submit_def use_redshift_data_def)
  have ld: "load e ?a r c = load e ?b r c" for r c
    by (simp add: load_def pl cs sb cong: prod.case_cong sum.case_cong)
  show ?thesis by (simp add: execute_def rc nh ld cong: prod.case_cong sum.case_cong)
qed

lemma fetched_append:
  "static_credentials_fetched (xs @ ys) \<longleftrightarrow>
     static_credentials_fetched xs \<or> static_credentials_fetched ys"
  by (induction xs rule: static_credentials_fetched.induct) simp_all

lemma fetched_fetch_conn: "\<not> static_credentials_fetched (fst (fetch_conn e self))"
  by (simp add: fetch_conn_def split: option.split)

lemma fetched_resolve_keys: "\<not> static_credentials_fetched (fst (resolve_keys e self))"
  by (simp add: resolve_keys_def discover_keys_def)

lemma fetched_plan_sql: "\<not> static_credentials_fetched (fst (plan_sql e self s))"
proof (cases "resolve_keys e self")
  case (Pair evk res)
  with fetched_resolve_keys [of e self] have "\<not> static_credentials_fetched evk" by simp
  with Pair show ?thesis by (simp add: plan_sql_def split: sum.split)
qed

lemma fetched_submit: "\<not> static_credentials_fetched (fst (submit e self q))"
  by (simp add: submit_def Let_def split: sum.split)

lemma fetched_load: "\<not> static_credentials_fetched (fst (load e self r c))"
proof (cases "plan_sql e self (copy_statement_of self r c)")
  case (Pair evp res)
  with fetched_plan_sql [of e self "copy_statement_of self r c"]
  have p: "\<not> static_credentials_fetched evp" by simp
  show ?thesis
  proof (cases res)
    case (Inl err)
    with Pair p show ?thesis by (simp add: load_def)
  next
    case (Inr q)
    obtain evs r' where s: "submit e self q = (evs, r')" by (cases "submit e self q")
    with fetched_submit [of e self q] have "\<not> static_credentials_fetched evs" by simp
    with Pair Inr p s show ?thesis by (simp add: load_def fetched_append)
  qed
qed

lemma fetched_new_hook:
  "static_credentials_fetched (new_hook self # es) = static_credentials_fetched es"
  by (simp add: new_hook_def)

lemma fetched_execute:
  assumes "resolve_credentials e self = (ev, res)" and "\<not> static_credentials_fetched ev"
  shows "\<not> static_credentials_fetched (fst (execute e self))"
proof (cases "load_method self \<in> set AVAILABLE_METHODS")
  case False
  then show ?thesis by (simp add: execute_def)
next
  case True
  show ?thesis
  proof (cases res)
    case (Inl err)
    with True assms show ?thesis by (simp add: execute_def fetched_new_hook)
  next
    case (Inr rc)
    obtain r c where rc: "rc = (r, c)" by (cases rc)
    with Inr assms(1) have "resolve_credentials e self = (ev, Inr (r, c))" by simp
    from execute_valid [OF True this] assms(2) fetched_load [of e self r c] show ?thesis
      by (simp add: fetched_new_hook fetched_append)
  qed
qed

lemma load_submits_one:
  assumes "load_method self = ''UPSERT'' \<longrightarrow>
             (\<exists>ks. snd (resolve_keys e self) = Inr ks \<and> truthy ks)"
  shows "\<exists>q. submitted (fst (load e self r c)) = [q] \<and>
             copy_statement_of self r c \<in> set (statements q)"
proof -
  have "\<exists>evp q. plan_sql e self (copy_statement_of self r c) = (evp, Inr q) \<and>
          submitted evp = [] \<and> copy_statement_of self r c \<in> set (statements q)"
  proof (cases "load_method self = ''UPSERT''")
    case False
    then show ?thesis by (simp add: plan_sql_def)
  next
    case True
    with assms obtain ks where ks: "snd (resolve_keys e self) = Inr ks" "truthy ks" by blast
    obtain evk where rk: "resolve_keys e self = (evk, Inr ks)"
      using ks(1) by (cases "resolve_keys e self") simp
    with submitted_resolve_keys [of e self] have "submitted evk = []" by simp
    with True rk ks(2) show ?thesis by (simp add: plan_sql_def)
  qed
  then obtain evp q where p: "plan_sql e self (copy_statement_of self r c) = (evp, Inr q)"
    and s: "submitted evp = []" and m: "copy_statement_of self r c \<in> set (statements q)"
    by blast
  from load_planned [OF p] s m show ?thesis by simp
qed

lemma copy_statement_text:
  "copy_statement_of self r c =
     ''\<newline>                    COPY '' @ copy_destination_of self @ '' '' @ column_names self @
     ''\<newline>                    FROM 's3://'' @ s3_bucket self @ ''/'' @ s3_key self @ [CHR 0x27] @
     ''\<newline>                    credentials'' @
     ''\<newline>                    '' @ [CHR 0x27] @ c @ [CHR 0x27] @
     ''\<newline>                    '' @ r @
     ''\<newline>                    '' @
       str_join (''\<newline>'' @ [CHR 0x09, CHR 0x09, CHR 0x09]) (copy_options self) @ '';'' @
     ''\<newline>        ''"
  by (simp add: copy_statement_of_def build_copy_query_def)

lemma execute_submits_one:
  assumes "load_method self \<in> set AVAILABLE_METHODS"
    and "resolve_credentials e self = (ev, Inr (r, c))"
    and "load_method self = ''UPSERT'' \<longrightarrow>
           (\<exists>ks. snd (resolve_keys e self) = Inr ks \<and> truthy ks)"
  shows "\<exists>q. submitted (fst (execute e self)) = [q] \<and>
     ''\<newline>                    COPY '' @ copy_destination_of self @ '' '' @ column_names self @
     ''\<newline>                    FROM 's3://'' @ s3_bucket self @ ''/'' @ s3_key self @ [CHR 0x27] @
     ''\<newline>                    credentials'' @
     ''\<newline>                    '' @ [CHR 0x27] @ c @ [CHR 0x27] @
     ''\<newline>                    '' @ r @
     ''\<newline>                    '' @
       str_join (''\<newline>'' @ [CHR 0x09, CHR 0x09, CHR 0x09]) (copy_options self) @ '';'' @
     ''\<newline>        '' \<in> set (statements q)"
  using load_submits_one [OF assms(3), of r c] submitted_execute_valid [OF assms(1,2)]
  unfolding copy_statement_text by simp

lemma execute_static_trace:
  assumes "load_method self \<in> set AVAILABLE_METHODS"
    and "fetch_conn e self = (ev, Inr conn)" and "extra_get conn ''role_arn'' = None"
  shows "\<exists>rest. fst (execute e self) =
           new_hook self # ev @ NewS3Hook (aws_conn_id self) (verify self) # S3GetCredentials # rest"
proof (cases "get_credentials e (aws_conn_id self) (verify self)")
  case (Inl err)
  with assms(2,3) have "resolve_credentials e self =
      (ev @ [NewS3Hook (aws_conn_id self) (verify self), S3GetCredentials], Inl err)"
    by (simp add: resolve_credentials_def)
  with assms(1) show ?thesis by (simp add: execute_def)
next
  case (Inr creds)
  with assms(2,3) have "resolve_credentials e self =
      (ev @ [NewS3Hook (aws_conn_id self) (verify self), S3GetCredentials],
       Inr (region_info_of conn, build_credentials_block e creds))"
    by (simp add: resolve_credentials_def)
  from execute_valid [OF assms(1) this] show ?thesis by simp
qed

section \<open>Properties of the COPY text\<close>

lemma takeWhile_until:
  "\<forall>x \<in> set xs. x \<noteq> c \<Longrightarrow> takeWhile (\<lambda>x. x \<noteq> c) (xs @ c # ys) = xs"
  by (induction xs) simp_all

lemma dropWhile_until:
  "\<forall>x \<in> set xs. x \<noteq> c \<Longrightarrow> dropWhile (\<lambda>x. x \<noteq> c) (xs @ c # ys) = c # ys"
  by (induction xs) simp_all

lemma str_join_avoids:
  "\<forall>n \<in> set cl. c \<notin> set n \<Longrightarrow> c \<notin> set sep \<Longrightarrow> c \<notin> set (str_join sep cl)"
  by (induction sep cl rule: str_join.induct) simp_all

lemma column_names_no_newline:
  assumes "\<forall>n \<in> set (case column_list self of None \<Rightarrow> [] | Some cl \<Rightarrow> cl). CHR 0x0A \<notin> set n"
  shows "CHR 0x0A \<notin> set (column_names self)"
proof (cases "column_list self")
  case None
  then show ?thesis by (simp add: column_names_def)
next
  case (Some cl)
  with assms have "\<forall>n \<in> set cl. CHR 0x0A \<notin> set n" by simp
  then have "CHR 0x0A \<notin> set (str_join '', '' cl)" by (rule str_join_avoids) simp
  with Some show ?thesis by (simp add: column_names_def)
qed

lemma delimiter_free_D:
  assumes "delimiter_free s"
  shows "\<forall>x \<in> set s. x \<noteq> CHR '' ''" and "\<forall>x \<in> set s. x \<noteq> CHR 0x0A"
    and "\<forall>x \<in> set s. x \<noteq> CHR 0x27"
  using assms by (auto simp: delimiter_free_def delimiter_chars_def list_all_iff)

lemma copy_query_after_header:
  "drop 26 (build_copy_query self d c r opts) =
     (d @ CHR '' '' # column_names self) @ CHR 0x0A #
     ''                    FROM 's3://'' @ s3_bucket self @ CHR ''/'' # s3_key self @ CHR 0x27 #
     ''\<newline>                    credentials'' @
     ''\<newline>                    '' @ [CHR 0x27] @ c @ [CHR 0x27] @
     ''\<newline>                    '' @ r @
     ''\<newline>                    '' @ opts @ '';'' @
     ''\<newline>        ''"
  by (simp add: build_copy_query_def)

lemma reparse_destination_copy:
  assumes "\<forall>x \<in> set d. x \<noteq> CHR '' ''"
  shows "reparse_destination (build_copy_query self d c r opts) = d"
  unfolding reparse_destination_def copy_query_after_header
  using takeWhile_until [OF assms] by simp

lemma reparse_source_copy:
  assumes "\<forall>x \<in> set d. x \<noteq> CHR 0x0A" and "CHR 0x0A \<notin> set (column_names self)"
  shows "reparse_source (build_copy_query self d c r opts) =
     s3_bucket self @ CHR ''/'' # s3_key self @ CHR 0x27 #
     ''\<newline>                    credentials'' @
     ''\<newline>                    '' @ [CHR 0x27] @ c @ [CHR 0x27] @
     ''\<newline>                    '' @ r @
     ''\<newline>                    '' @ opts @ '';'' @
     ''\<newline>        ''"
proof -
  from assms have "\<forall>x \<in> set (d @ CHR '' '' # column_names self). x \<noteq> CHR 0x0A" by auto
  from dropWhile_until [OF this] show ?thesis
    unfolding reparse_source_def copy_query_after_header by simp
qed

section \<open>The statements of each method\<close>

text \<open>
  C3. A method outside APPEND, REPLACE and UPSERT makes \<open>execute\<close> raise the
  configuration error at once: the trace is empty, so no hook was constructed, no
  connection or credential was looked up, and no statement was built or submitted.
\<close>

theorem invalid_method_fails_first:
  "load_method self \<notin> set AVAILABLE_METHODS \<Longrightarrow>
   execute e self = ([], Inl (AirflowException
     ''Method not found! Available methods: ['APPEND', 'REPLACE', 'UPSERT']''))"
  by (simp add: execute_def)

theorem invalid_method_fails_first_witness:
  "load_method (orders_op\<lparr>load_method := ''MERGE''\<rparr>) \<notin> set AVAILABLE_METHODS \<and>
   execute example_env (orders_op\<lparr>load_method := ''MERGE''\<rparr>) = ([], Inl (AirflowException
     ''Method not found! Available methods: ['APPEND', 'REPLACE', 'UPSERT']''))"
  using invalid_method_fails_first [of "orders_op\<lparr>load_method := ''MERGE''\<rparr>" example_env]
  by (simp add: AVAILABLE_METHODS_def orders_op_def)

text \<open>
  C5. With method APPEND, once the credentials clause is resolved, exactly one submission
  reaches the warehouse and it is the compiled COPY statement itself, as a bare string:
  nothing is put around it, no \<^verbatim>\<open>BEGIN;\<close> and no \<^verbatim>\<open>COMMIT\<close>.
\<close>

theorem append_single_copy:
  assumes "load_method self = ''APPEND''"
    and "resolve_credentials e self = (ev, Inr (region_info, credentials_block))"
  shows "submitted (fst (execute e self)) =
           [SqlStr (build_copy_query self (destination_of self) credentials_block region_info
              (str_join (''\<newline>'' @ [CHR 0x09, CHR 0x09, CHR 0x09]) (copy_options self)))]"
proof -
  from assms(1) have m: "load_method self \<in> set AVAILABLE_METHODS"
    by (simp add: AVAILABLE_METHODS_def)
  from assms(1) have "plan_sql e self (copy_statement_of self region_info credentials_block) =
      ([], Inr (SqlStr (copy_statement_of self region_info credentials_block)))"
    by (simp add: plan_sql_def)
  from load_planned [OF this] have
    "submitted (fst (load e self region_info credentials_block)) =
       [SqlStr (copy_statement_of self region_info credentials_block)]" by simp
  with submitted_execute_valid [OF m assms(2)] assms(1) show ?thesis
    by (simp add: copy_statement_of_def copy_destination_of_def)
qed

theorem append_single_copy_witness:
  "load_method (orders_op\<lparr>load_method := ''APPEND''\<rparr>) = ''APPEND'' \<and>
   submitted (fst (execute example_env (orders_op\<lparr>load_method := ''APPEND''\<rparr>))) =
     [SqlStr ''\<newline>                    COPY public.orders \<newline>                    FROM 's3://lake/orders/2024'\<newline>                    credentials\<newline>                    'aws_access_key_id=AK;aws_secret_access_key=SK'\<newline>                    region 'eu-west-1'\<newline>                    ;\<newline>        '']"
proof -
  have m: "load_method (orders_op\<lparr>load_method := ''APPEND''\<rparr>) = ''APPEND''" by simp
  have c: "resolve_credentials example_env (orders_op\<lparr>load_method := ''APPEND''\<rparr>) =
     ([S3GetConnection ''aws_default'', NewS3Hook (Some ''aws_default'') None, S3GetCredentials],
      Inr (''region 'eu-west-1'' @ [CHR 0x27], ''aws_access_key_id=AK;aws_secret_access_key=SK''))"
    by (simp add: resolve_credentials_def fetch_conn_def example_env_def orders_op_def
        region_info_of_def extra_get_def)
  from append_single_copy [OF m c] show ?thesis
    by (simp add: orders_op_def destination_of_def truthy_def str_opt_def
        build_copy_query_def column_names_def)
qed

text \<open>
  C2. With method REPLACE, once the credentials clause is resolved, exactly one submission
  reaches the warehouse and it is the list \<^verbatim>\<open>BEGIN;\<close>, \<^verbatim>\<open>DELETE FROM destination;\<close>,
  the COPY statement into the destination, \<^verbatim>\<open>COMMIT\<close>, in this order. The destination
  is \<^verbatim>\<open>schema.table\<close> when a (non-empty) schema is given and \<^verbatim>\<open>table\<close> otherwise.
\<close>

theorem replace_four_statements:
  assumes "load_method self = ''REPLACE''"
    and "resolve_credentials e self = (ev, Inr (region_info, credentials_block))"
  shows "submitted (fst (execute e self)) =
           [SqlList [''BEGIN;'',
                     ''DELETE FROM '' @
                       (case schema self of
                          None \<Rightarrow> table self
                        | Some s \<Rightarrow> if s = [] then table self else s @ ''.'' @ table self) @ '';'',
                     build_copy_query self (destination_of self) credentials_block region_info
                       (str_join (''\<newline>'' @ [CHR 0x09, CHR 0x09, CHR 0x09]) (copy_options self)),
                     ''COMMIT'']]"
proof -
  from assms(1) have m: "load_method self \<in> set AVAILABLE_METHODS"
    by (simp add: AVAILABLE_METHODS_def)
  have d: "destination_of self =
      (case schema self of None \<Rightarrow> table self
       | Some s \<Rightarrow> if s = [] then table self else s @ ''.'' @ table self)"
    by (simp add: destination_of_def truthy_def str_opt_def split: option.split)
  from assms(1) have "plan_sql e self (copy_statement_of self region_info credentials_block) =
      ([], Inr (SqlList [''BEGIN;'', ''DELETE FROM '' @ destination_of self @ '';'',
          copy_statement_of self region_info credentials_block, ''COMMIT'']))"
    by (simp add: plan_sql_def)
  from load_planned [OF this] have
    "submitted (fst (load e self region_info credentials_block)) =
       [SqlList [''BEGIN;'', ''DELETE FROM '' @ destination_of self @ '';'',
          copy_statement_of self region_info credentials_block, ''COMMIT'']]" by simp
  with submitted_execute_valid [OF m assms(2)] assms(1) d show ?thesis
    by (simp add: copy_statement_of_def copy_destination_of_def)
qed

theorem replace_four_statements_witness:
  "load_method (orders_op\<lparr>load_method := ''REPLACE''\<rparr>) = ''REPLACE'' \<and>
   submitted (fst (execute example_env (orders_op\<lparr>load_method := ''REPLACE''\<rparr>))) =
     [SqlList [''BEGIN;'', ''DELETE FROM public.orders;'',
        ''\<newline>                    COPY public.orders \<newline>                    FROM 's3://lake/orders/2024'\<newline>                    credentials\<newline>                    'aws_access_key_id=AK;aws_secret_access_key=SK'\<newline>                    region 'eu-west-1'\<newline>                    ;\<newline>        '',
        ''COMMIT'']]"
proof -
  have m: "load_method (orders_op\<lparr>load_method := ''REPLACE''\<rparr>) = ''REPLACE''" by simp
  have c: "resolve_credentials example_env (orders_op\<lparr>load_method := ''REPLACE''\<rparr>) =
     ([S3GetConnection ''aws_default'', NewS3Hook (Some ''aws_default'') None, S3GetCredentials],
      Inr (''region 'eu-west-1'' @ [CHR 0x27], ''aws_access_key_id=AK;aws_secret_access_key=SK''))"
    by (simp add: resolve_credentials_def fetch_conn_def example_env_def orders_op_def
        region_info_of_def extra_get_def)
  from replace_four_statements [OF m c] show ?thesis
    by (simp add: orders_op_def destination_of_def truthy_def str_opt_def
        build_copy_query_def column_names_def)
qed

text \<open>
  C1. With method UPSERT and a non-empty list of upsert keys, once the credentials clause
  is resolved, exactly one submission reaches the warehouse and it is a list of six
  statements, in this order: the CREATE TABLE of the staging table \<^verbatim>\<open>#table\<close> like the
  destination including defaults; the COPY statement, loading into the staging table;
  \<^verbatim>\<open>BEGIN;\<close>; the DELETE from the destination using the staging table, whose WHERE
  clause joins \<^verbatim>\<open>table.key = #table.key\<close> over the keys with \<^verbatim>\<open>AND\<close>; the INSERT of
  everything in the staging table into the destination; \<^verbatim>\<open>COMMIT\<close>. The staging table
  is never the destination.
\<close>

theorem upsert_six_statements:
  assumes "load_method self = ''UPSERT''"
    and "upsert_keys self = Some keys" and "keys \<noteq> []"
    and "resolve_credentials e self = (ev, Inr (region_info, credentials_block))"
  shows "submitted (fst (execute e self)) =
           [SqlList
             [''CREATE TABLE #'' @ table self @ '' (LIKE '' @ destination_of self @
                '' INCLUDING DEFAULTS);'',
              build_copy_query self (''#'' @ table self) credentials_block region_info
                (str_join (''\<newline>'' @ [CHR 0x09, CHR 0x09, CHR 0x09]) (copy_options self)),
              ''BEGIN;'',
              ''DELETE FROM '' @ destination_of self @ '' USING #'' @ table self @ '' WHERE '' @
                str_join '' AND ''
                  (map (\<lambda>k. table self @ ''.'' @ k @ '' = #'' @ table self @ ''.'' @ k) keys) @ '';'',
              ''INSERT INTO '' @ destination_of self @ '' SELECT * FROM #'' @ table self @ '';'',
              ''COMMIT'']]
         \<and> ''#'' @ table self \<noteq> destination_of self"
proof -
  from assms(1) have m: "load_method self \<in> set AVAILABLE_METHODS"
    by (simp add: AVAILABLE_METHODS_def)
  have cd: "copy_destination_of self = ''#'' @ table self"
    using assms(1) by (simp add: copy_destination_of_def)
  have k: "resolve_keys e self = ([], Inr (Some keys))"
    using assms(2,3) by (simp add: resolve_keys_def truthy_def)
  have "plan_sql e self (copy_statement_of self region_info credentials_block) =
      ([], Inr (SqlList
             [''CREATE TABLE #'' @ table self @ '' (LIKE '' @ destination_of self @
                '' INCLUDING DEFAULTS);'',
              copy_statement_of self region_info credentials_block,
              ''BEGIN;'',
              ''DELETE FROM '' @ destination_of self @ '' USING #'' @ table self @ '' WHERE '' @
                str_join '' AND ''
                  (map (\<lambda>k. table self @ ''.'' @ k @ '' = #'' @ table self @ ''.'' @ k) keys) @ '';'',
              ''INSERT INTO '' @ destination_of self @ '' SELECT * FROM #'' @ table self @ '';'',
              ''COMMIT'']))"
    using assms(1,3) by (simp add: plan_sql_def k cd where_statement_def truthy_def)
  from load_planned [OF this] submitted_execute_valid [OF m assms(4)]
  have "submitted (fst (execute e self)) =
           [SqlList
             [''CREATE TABLE #'' @ table self @ '' (LIKE '' @ destination_of self @
                '' INCLUDING DEFAULTS);'',
              copy_statement_of self region_info credentials_block,
              ''BEGIN;'',
              ''DELETE FROM '' @ destination_of self @ '' USING #'' @ table self @ '' WHERE '' @
                str_join '' AND ''
                  (map (\<lambda>k. table self @ ''.'' @ k @ '' = #'' @ table self @ ''.'' @ k) keys) @ '';'',
              ''INSERT INTO '' @ destination_of self @ '' SELECT * FROM #'' @ table self @ '';'',
              ''COMMIT'']]" by simp
  moreover have "''#'' @ table self \<noteq> destination_of self"
  proof
    assume eq: "''#'' @ table self = destination_of self"
    then have "length (''#'' @ table self) = length (destination_of self)" by simp
    then show False
      by (simp add: destination_of_def truthy_def str_opt_def split: option.splits if_splits)
  qed
  ultimately show ?thesis by (simp add: copy_statement_of_def cd)
qed

theorem upsert_six_statements_witness:
  "load_method orders_op = ''UPSERT'' \<and> upsert_keys orders_op = Some [''id''] \<and> [''id''] \<noteq> [] \<and>
   submitted (fst (execute example_env orders_op)) =
     [SqlList
       [''CREATE TABLE #orders (LIKE public.orders INCLUDING DEFAULTS);'',
        ''\<newline>                    COPY #orders \<newline>                    FROM 's3://lake/orders/2024'\<newline>                    credentials\<newline>                    'aws_access_key_id=AK;aws_secret_access_key=SK'\<newline>                    region 'eu-west-1'\<newline>                    ;\<newline>        '',
        ''BEGIN;'',
        ''DELETE FROM public.orders USING #orders WHERE orders.id = #orders.id;'',
        ''INSERT INTO public.orders SELECT * FROM #orders;'',
        ''COMMIT'']]"
proof -
  have m: "load_method orders_op = ''UPSERT''" by (simp add: orders_op_def)
  have k: "upsert_keys orders_op = Some [''id'']" by (simp add: orders_op_def)
  have n: "[''id''] \<noteq> ([] :: string list)" by simp
  from upsert_six_statements [OF m k n example_credentials] m k show ?thesis
    by (simp add: orders_op_def destination_of_def truthy_def str_opt_def
        build_copy_query_def column_names_def)
qed

text \<open>
  C4. With method UPSERT, no upsert keys, and a primary-key lookup that answers with no
  key at all (\<^verbatim>\<open>None\<close> or an empty list), once the credentials clause is resolved
  \<open>execute\<close> raises the no-primary-key error right after the lookup: nothing was
  submitted to the warehouse.
\<close>

theorem upsert_without_keys_fails:
  assumes "load_method self = ''UPSERT''" and "upsert_keys self = None"
    and "snd (discover_keys e self) = Inr ks" and "ks = None \<or> ks = Some []"
    and "resolve_credentials e self = (ev, Inr (region_info, credentials_block))"
  shows "execute e self =
           (new_hook self # ev @ fst (discover_keys e self),
            Inl (AirflowException
              (''No primary key on '' @ str_opt (schema self) @ ''.'' @ table self @
               ''. Please provide keys on '' @ [CHR 0x27] @ ''upsert_keys'' @ [CHR 0x27])))
         \<and> submitted (fst (execute e self)) = []"
proof -
  from assms(2) have nk: "\<not> truthy (upsert_keys self)" by (simp add: truthy_def)
  from assms(4) have nt: "\<not> truthy ks" by (auto simp: truthy_def)
  note ex = no_keys_fails [OF assms(1) nk assms(3) nt assms(5)]
  from submitted_resolve_credentials [of e self] assms(5) have "submitted ev = []" by simp
  with ex show ?thesis
    by (simp add: submitted_new_hook submitted_append submitted_discover_keys)
qed

theorem upsert_without_keys_fails_witness:
  "load_method (orders_op\<lparr>upsert_keys := None\<rparr>) = ''UPSERT''
   \<and> snd (discover_keys example_env (orders_op\<lparr>upsert_keys := None\<rparr>)) = Inr (Some [])
   \<and> execute example_env (orders_op\<lparr>upsert_keys := None\<rparr>) =
       ([NewRedshiftSQLHook ''redshift_default'', S3GetConnection ''aws_default'',
         NewS3Hook (Some ''aws_default'') None, S3GetCredentials,
         SqlGetTablePrimaryKey ''orders'' (Some ''public'')],
        Inl (AirflowException
          (''No primary key on public.orders. Please provide keys on 'upsert_keys'' @ [CHR 0x27])))"
proof -
  let ?op = "orders_op\<lparr>upsert_keys := None\<rparr>"
  have m: "load_method ?op = ''UPSERT''" by (simp add: orders_op_def)
  have k: "upsert_keys ?op = None" by simp
  have d: "snd (discover_keys example_env ?op) = Inr (Some [])"
    by (simp add: discover_keys_def use_redshift_data_def orders_op_def example_env_def)
  have c: "resolve_credentials example_env ?op =
     ([S3GetConnection ''aws_default'', NewS3Hook (Some ''aws_default'') None, S3GetCredentials],
      Inr (''region 'eu-west-1'' @ [CHR 0x27], ''aws_access_key_id=AK;aws_secret_access_key=SK''))"
    by (simp add: resolve_credentials_def fetch_conn_def example_env_def orders_op_def
        region_info_of_def extra_get_def)
  from upsert_without_keys_fails [OF m k d _ c] m d show ?thesis
    by (simp add: orders_op_def new_hook_def use_redshift_data_def discover_keys_def str_opt_def)
qed

text \<open>
  C10. With method UPSERT, an empty list of upsert keys is handled as no keys at all: the
  run is the run of the same operator without keys; the keys are looked up in the
  warehouse, and the lookup call is in the trace right after the credentials; and when the
  lookup answers with no key, the no-primary-key error is raised.
\<close>

theorem empty_upsert_keys_as_absent:
  assumes "load_method self = ''UPSERT''" and "upsert_keys self = Some []"
    and "resolve_credentials e self = (ev, Inr (region_info, credentials_block))"
  shows "execute e self = execute e (self\<lparr>upsert_keys := None\<rparr>)
       \<and> resolve_keys e self = discover_keys e self
       \<and> (\<exists>rest. fst (execute e self) = new_hook self # ev @ fst (discover_keys e self) @ rest)
       \<and> (\<forall>ks. snd (discover_keys e self) = Inr ks \<and> (ks = None \<or> ks = Some []) \<longrightarrow>
            execute e self =
              (new_hook self # ev @ fst (discover_keys e self),
               Inl (AirflowException
                 (''No primary key on '' @ str_opt (schema self) @ ''.'' @ table self @
                  ''. Please provide keys on '' @ [CHR 0x27] @ ''upsert_keys'' @ [CHR 0x27]))))"
proof -
  from assms(1) have m: "load_method self \<in> set AVAILABLE_METHODS"
    by (simp add: AVAILABLE_METHODS_def)
  from assms(2) have nt: "\<not> truthy (upsert_keys self)" by (simp add: truthy_def)
  from assms(2) have "self = self\<lparr>upsert_keys := Some []\<rparr>" by simp
  with execute_ignores_empty_keys [of e self]
  have a: "execute e self = execute e (self\<lparr>upsert_keys := None\<rparr>)" by simp
  from nt have b: "resolve_keys e self = discover_keys e self" by (simp add: resolve_keys_def)
  from upsert_trace_starts_with_lookup [OF assms(1) nt, of e region_info credentials_block]
  obtain rest where "fst (load e self region_info credentials_block) =
      fst (discover_keys e self) @ rest" ..
  with execute_valid [OF m assms(3)]
  have c: "\<exists>rest. fst (execute e self) = new_hook self # ev @ fst (discover_keys e self) @ rest"
    by simp
  have d: "\<forall>ks. snd (discover_keys e self) = Inr ks \<and> (ks = None \<or> ks = Some []) \<longrightarrow>
            execute e self =
              (new_hook self # ev @ fst (discover_keys e self),
               Inl (AirflowException
                 (''No primary key on '' @ str_opt (schema self) @ ''.'' @ table self @
                  ''. Please provide keys on '' @ [CHR 0x27] @ ''upsert_keys'' @ [CHR 0x27])))"
  proof (intro allI impI)
    fix ks :: "string list option"
    assume h: "snd (discover_keys e self) = Inr ks \<and> (ks = None \<or> ks = Some [])"
    then have "\<not> truthy ks" by (auto simp: truthy_def)
    with h no_keys_fails [OF assms(1) nt _ _ assms(3)] show "execute e self =
              (new_hook self # ev @ fst (discover_keys e self),
               Inl (AirflowException
                 (''No primary key on '' @ str_opt (schema self) @ ''.'' @ table self @
                  ''. Please provide keys on '' @ [CHR 0x27] @ ''upsert_keys'' @ [CHR 0x27])))"
      by blast
  qed
  from a b c d show ?thesis by blast
qed

theorem empty_upsert_keys_as_absent_witness:
  "load_method (orders_op\<lparr>upsert_keys := Some []\<rparr>) = ''UPSERT''
   \<and> upsert_keys (orders_op\<lparr>upsert_keys := Some []\<rparr>) = Some []
   \<and> snd (discover_keys example_env (orders_op\<lparr>upsert_keys := Some []\<rparr>)) = Inr (Some [])
   \<and> execute example_env (orders_op\<lparr>upsert_keys := Some []\<rparr>) =
       ([NewRedshiftSQLHook ''redshift_default'', S3GetConnection ''aws_default'',
         NewS3Hook (Some ''aws_default'') None, S3GetCredentials,
         SqlGetTablePrimaryKey ''orders'' (Some ''public'')],
        Inl (AirflowException
          (''No primary key on public.orders. Please provide keys on 'upsert_keys'' @ [CHR 0x27])))
   \<and> execute example_env (orders_op\<lparr>upsert_keys := Some []\<rparr>) =
       execute example_env (orders_op\<lparr>upsert_keys := None\<rparr>)"
proof -
  let ?op = "orders_op\<lparr>upsert_keys := Some []\<rparr>"
  have m: "load_method ?op = ''UPSERT''" by (simp add: orders_op_def)
  have k: "upsert_keys ?op = Some []" by simp
  have d: "snd (discover_keys example_env ?op) = Inr (Some [])"
    by (simp add: discover_keys_def use_redshift_data_def orders_op_def example_env_def)
  have c: "resolve_credentials example_env ?op =
     ([S3GetConnection ''aws_default'', NewS3Hook (Some ''aws_default'') None, S3GetCredentials],
      Inr (''region 'eu-west-1'' @ [CHR 0x27], ''aws_access_key_id=AK;aws_secret_access_key=SK''))"
    by (simp add: resolve_credentials_def fetch_conn_def example_env_def orders_op_def
        region_info_of_def extra_get_def)
  from empty_upsert_keys_as_absent [OF m k c] d
  have "execute example_env ?op =
      (new_hook ?op # [S3GetConnection ''aws_default'', NewS3Hook (Some ''aws_default'') None,
         S3GetCredentials] @ fst (discover_keys example_env ?op),
       Inl (AirflowException
         (''No primary key on '' @ str_opt (schema ?op) @ ''.'' @ table ?op @
          ''. Please provide keys on '' @ [CHR 0x27] @ ''upsert_keys'' @ [CHR 0x27])))"
    and "execute example_env ?op = execute example_env (?op\<lparr>upsert_keys := None\<rparr>)"
    by blast+
  with m d show ?thesis
    by (simp add: orders_op_def new_hook_def use_redshift_data_def discover_keys_def str_opt_def)
qed

section \<open>The column clause\<close>

text \<open>
  C6. The column list \<^verbatim>\<open>['a', 'b']\<close> is rendered as \<^verbatim>\<open>(a, b)\<close>, right after the
  destination. An empty column list and an absent one render nothing, not even a pair of
  parentheses, and give the same COPY text, character for character.
\<close>

theorem column_clause_rendering:
  "column_names (self\<lparr>column_list := Some [''a'', ''b'']\<rparr>) = ''(a, b)''
   \<and> build_copy_query (self\<lparr>column_list := Some [''a'', ''b'']\<rparr>) d c r opts =
       ''\<newline>                    COPY '' @ d @ '' (a, b)'' @
       ''\<newline>                    FROM 's3://'' @ s3_bucket self @ ''/'' @ s3_key self @ [CHR 0x27] @
       ''\<newline>                    credentials'' @
       ''\<newline>                    '' @ [CHR 0x27] @ c @ [CHR 0x27] @
       ''\<newline>                    '' @ r @
       ''\<newline>                    '' @ opts @ '';'' @
       ''\<newline>        ''
   \<and> column_names (self\<lparr>column_list := Some []\<rparr>) = ''''
   \<and> column_names (self\<lparr>column_list := None\<rparr>) = ''''
   \<and> build_copy_query (self\<lparr>column_list := Some []\<rparr>) d c r opts =
       build_copy_query (self\<lparr>column_list := None\<rparr>) d c r opts
   \<and> build_copy_query (self\<lparr>column_list := None\<rparr>) d c r opts =
       ''\<newline>                    COPY '' @ d @ '' '' @
       ''\<newline>                    FROM 's3://'' @ s3_bucket self @ ''/'' @ s3_key self @ [CHR 0x27] @
       ''\<newline>                    credentials'' @
       ''\<newline>                    '' @ [CHR 0x27] @ c @ [CHR 0x27] @
       ''\<newline>                    '' @ r @
       ''\<newline>                    '' @ opts @ '';'' @
       ''\<newline>        ''"
  by (simp add: build_copy_query_def column_names_def)

section \<open>Construction with reserved keys\<close>

text \<open>
  C7. When the Data API keyword arguments hold the key \<^verbatim>\<open>sql\<close> or the key
  \<^verbatim>\<open>parameters\<close>, \<^verbatim>\<open>__init__\<close> raises the configuration error that names the key
  (\<^verbatim>\<open>sql\<close> first when both are there). No operator comes out of the construction, so
  no statement is built and no hook is reached.
\<close>

theorem reserved_kwargs_rejected:
  assumes "arg_redshift_data_api_kwargs a = Some kw"
    and "''sql'' \<in> set (map fst kw) \<or> ''parameters'' \<in> set (map fst kw)"
  shows "init a = Inl (AirflowException
           (''Cannot include param '' @ [CHR 0x27] @
            (if ''sql'' \<in> set (map fst kw) then ''sql'' else ''parameters'') @
            [CHR 0x27] @ '' in Redshift Data API kwargs''))"
proof -
  from assms(2) have ne: "kw \<noteq> []" by auto
  show ?thesis
  proof (cases "''sql'' \<in> set (map fst kw)")
    case True
    with assms(1) ne show ?thesis
      by (simp add: init_def check_reserved_sql_parameters del: check_reserved.simps)
  next
    case False
    with assms(2) have "''parameters'' \<in> set (map fst kw)" by simp
    with False assms(1) ne show ?thesis
      by (simp add: init_def check_reserved_sql_parameters del: check_reserved.simps)
  qed
qed

theorem reserved_kwargs_rejected_witness:
  "init (orders_args\<lparr>arg_redshift_data_api_kwargs :=
       Some [(''database'', PyStr ''dev''), (''sql'', PyStr ''select 1'')]\<rparr>) =
     Inl (AirflowException ''Cannot include param 'sql' in Redshift Data API kwargs'')
   \<and> init (orders_args\<lparr>arg_redshift_data_api_kwargs :=
       Some [(''parameters'', PyNone)]\<rparr>) =
     Inl (AirflowException ''Cannot include param 'parameters' in Redshift Data API kwargs'')"
  using reserved_kwargs_rejected [of "orders_args\<lparr>arg_redshift_data_api_kwargs :=
       Some [(''database'', PyStr ''dev''), (''sql'', PyStr ''select 1'')]\<rparr>"
       "[(''database'', PyStr ''dev''), (''sql'', PyStr ''select 1'')]"]
    reserved_kwargs_rejected [of "orders_args\<lparr>arg_redshift_data_api_kwargs :=
       Some [(''parameters'', PyNone)]\<rparr>" "[(''parameters'', PyNone)]"]
  by simp

section \<open>The credentials clause\<close>

text \<open>
  C9. In a run with a valid method, once the connection is fetched: when its extras hold
  a (non-empty) \<^verbatim>\<open>role_arn\<close>, the credentials clause is \<^verbatim>\<open>aws_iam_role=\<close> followed
  by the ARN, the trace of \<open>execute\<close> goes on from the connection lookup without the
  S3 hook being built or asked for static credentials, and the run that gets as far as
  submitting (any APPEND or REPLACE, an UPSERT whose keys resolve) submits exactly once,
  with, among its statements, the COPY text that holds that clause between the quotes
  after \<^verbatim>\<open>credentials\<close>. Otherwise \<open>execute\<close> builds the S3 hook and asks it for the
  static credentials right after the connection lookup, and, when they are answered, the
  clause in the submitted COPY text is \<^verbatim>\<open>build_credentials_block\<close> of the answer.
\<close>

theorem role_arn_replaces_static_credentials:
  assumes "fetch_conn e self = (ev, Inr conn)"
    and "load_method self \<in> set AVAILABLE_METHODS"
  shows "(\<forall>ex arn. conn = Some ex \<and> map_of ex ''role_arn'' = Some arn \<and> arn \<noteq> [] \<longrightarrow>
            resolve_credentials e self = (ev, Inr (region_info_of conn, ''aws_iam_role='' @ arn))
            \<and> (\<exists>rest. fst (execute e self) = new_hook self # ev @ rest)
            \<and> \<not> static_credentials_fetched (fst (execute e self))
            \<and> ((load_method self = ''UPSERT'' \<longrightarrow>
                   (\<exists>ks. snd (resolve_keys e self) = Inr ks \<and> truthy ks)) \<longrightarrow>
                (\<exists>q. submitted (fst (execute e self)) = [q] \<and>
                   ''\<newline>                    COPY '' @ copy_destination_of self @ '' '' @ column_names self @
                   ''\<newline>                    FROM 's3://'' @ s3_bucket self @ ''/'' @ s3_key self @ [CHR 0x27] @
                   ''\<newline>                    credentials'' @
                   ''\<newline>                    '' @ [CHR 0x27] @ (''aws_iam_role='' @ arn) @ [CHR 0x27] @
                   ''\<newline>                    '' @ region_info_of conn @
                   ''\<newline>                    '' @
                     str_join (''\<newline>'' @ [CHR 0x09, CHR 0x09, CHR 0x09]) (copy_options self) @ '';'' @
                   ''\<newline>        '' \<in> set (statements q))))
       \<and> (extra_get conn ''role_arn'' = None \<longrightarrow>
            (\<exists>rest. fst (execute e self) =
               new_hook self # ev @
               NewS3Hook (aws_conn_id self) (verify self) # S3GetCredentials # rest)
            \<and> (\<forall>creds. get_credentials e (aws_conn_id self) (verify self) = Inr creds \<longrightarrow>
                 resolve_credentials e self =
                   (ev @ [NewS3Hook (aws_conn_id self) (verify self), S3GetCredentials],
                    Inr (region_info_of conn, build_credentials_block e creds))
                 \<and> ((load_method self = ''UPSERT'' \<longrightarrow>
                        (\<exists>ks. snd (resolve_keys e self) = Inr ks \<and> truthy ks)) \<longrightarrow>
                     (\<exists>q. submitted (fst (execute e self)) = [q] \<and>
                        ''\<newline>                    COPY '' @ copy_destination_of self @ '' '' @ column_names self @
                        ''\<newline>                    FROM 's3://'' @ s3_bucket self @ ''/'' @ s3_key self @ [CHR 0x27] @
                        ''\<newline>                    credentials'' @
                        ''\<newline>                    '' @ [CHR 0x27] @ build_credentials_block e creds @ [CHR 0x27] @
                        ''\<newline>                    '' @ region_info_of conn @
                        ''\<newline>                    '' @
                          str_join (''\<newline>'' @ [CHR 0x09, CHR 0x09, CHR 0x09]) (copy_options self) @ '';'' @
                        ''\<newline>        '' \<in> set (statements q)))))"
proof (intro conjI allI impI)
  fix ex arn
  assume h: "conn = Some ex \<and> map_of ex ''role_arn'' = Some arn \<and> arn \<noteq> []"
  then have g: "extra_get conn ''role_arn'' = Some arn" by (simp add: extra_get_def)
  with assms(1) show rc: "resolve_credentials e self =
      (ev, Inr (region_info_of conn, ''aws_iam_role='' @ arn))"
    by (simp add: resolve_credentials_def)
  from execute_valid [OF assms(2) rc]
  show "\<exists>rest. fst (execute e self) = new_hook self # ev @ rest" by simp
  from fetched_fetch_conn [of e self] assms(1) have "\<not> static_credentials_fetched ev" by simp
  with rc show "\<not> static_credentials_fetched (fst (execute e self))"
    by (rule fetched_execute)
  assume "load_method self = ''UPSERT'' \<longrightarrow>
            (\<exists>ks. snd (resolve_keys e self) = Inr ks \<and> truthy ks)"
  from execute_submits_one [OF assms(2) rc this]
  show "\<exists>q. submitted (fst (execute e self)) = [q] \<and>
     ''\<newline>                    COPY '' @ copy_destination_of self @ '' '' @ column_names self @
     ''\<newline>                    FROM 's3://'' @ s3_bucket self @ ''/'' @ s3_key self @ [CHR 0x27] @
     ''\<newline>                    credentials'' @
     ''\<newline>                    '' @ [CHR 0x27] @ (''aws_iam_role='' @ arn) @ [CHR 0x27] @
     ''\<newline>                    '' @ region_info_of conn @
     ''\<newline>                    '' @
       str_join (''\<newline>'' @ [CHR 0x09, CHR 0x09, CHR 0x09]) (copy_options self) @ '';'' @
     ''\<newline>        '' \<in> set (statements q)" .
next
  assume n: "extra_get conn ''role_arn'' = None"
  from execute_static_trace [OF assms(2,1) n]
  show "\<exists>rest. fst (execute e self) =
      new_hook self # ev @ NewS3Hook (aws_conn_id self) (verify self) # S3GetCredentials # rest" .
next
  fix creds
  assume n: "extra_get conn ''role_arn'' = None"
    and c: "get_credentials e (aws_conn_id self) (verify self) = Inr creds"
  with assms(1) show rc: "resolve_credentials e self =
      (ev @ [NewS3Hook (aws_conn_id self) (verify self), S3GetCredentials],
       Inr (region_info_of conn, build_credentials_block e creds))"
    by (simp add: resolve_credentials_def)
  assume "load_method self = ''UPSERT'' \<longrightarrow>
            (\<exists>ks. snd (resolve_keys e self) = Inr ks \<and> truthy ks)"
  from execute_submits_one [OF assms(2) rc this]
  show "\<exists>q. submitted (fst (execute e self)) = [q] \<and>
     ''\<newline>                    COPY '' @ copy_destination_of self @ '' '' @ column_names self @
     ''\<newline>                    FROM 's3://'' @ s3_bucket self @ ''/'' @ s3_key self @ [CHR 0x27] @
     ''\<newline>                    credentials'' @
     ''\<newline>                    '' @ [CHR 0x27] @ build_credentials_block e creds @ [CHR 0x27] @
     ''\<newline>                    '' @ region_info_of conn @
     ''\<newline>                    '' @
       str_join (''\<newline>'' @ [CHR 0x09, CHR 0x09, CHR 0x09]) (copy_options self) @ '';'' @
     ''\<newline>        '' \<in> set (statements q)" .
qed


theorem role_arn_replaces_static_credentials_witness:
  "fetch_conn example_env (orders_op\<lparr>aws_conn_id := Some ''aws_role'', load_method := ''APPEND''\<rparr>) =
     ([S3GetConnection ''aws_role''], Inr (Some [(''role_arn'', ''arn:aws:iam::1:role/load'')]))
   \<and> \<not> static_credentials_fetched (fst (execute example_env
         (orders_op\<lparr>aws_conn_id := Some ''aws_role'', load_method := ''APPEND''\<rparr>)))
   \<and> (\<exists>q. submitted (fst (execute example_env
         (orders_op\<lparr>aws_conn_id := Some ''aws_role'', load_method := ''APPEND''\<rparr>))) = [q]
        \<and> ''\<newline>                    COPY public.orders \<newline>                    FROM 's3://lake/orders/2024'\<newline>                    credentials\<newline>                    'aws_iam_role=arn:aws:iam::1:role/load'\<newline>                    \<newline>                    ;\<newline>        ''
            \<in> set (statements q))
   \<and> execute example_env (orders_op\<lparr>aws_conn_id := Some ''aws_role'', load_method := ''APPEND''\<rparr>) =
       ([NewRedshiftSQLHook ''redshift_default'', S3GetConnection ''aws_role'',
         LogInfo ''Executing COPY command...'',
         SqlRun (SqlStr ''\<newline>                    COPY public.orders \<newline>                    FROM 's3://lake/orders/2024'\<newline>                    credentials\<newline>                    'aws_iam_role=arn:aws:iam::1:role/load'\<newline>                    \<newline>                    ;\<newline>        '') False,
         LogInfo ''COPY command complete...''], Inr ())
   \<and> extra_get (Some [(''region'', ''eu-west-1'')]) ''role_arn'' = None
   \<and> (\<exists>rest. fst (execute example_env (orders_op\<lparr>load_method := ''APPEND''\<rparr>)) =
         NewRedshiftSQLHook ''redshift_default'' # S3GetConnection ''aws_default'' #
         NewS3Hook (Some ''aws_default'') None # S3GetCredentials # rest)
   \<and> (\<exists>q. submitted (fst (execute example_env (orders_op\<lparr>load_method := ''APPEND''\<rparr>))) = [q]
        \<and> ''\<newline>                    COPY public.orders \<newline>                    FROM 's3://lake/orders/2024'\<newline>                    credentials\<newline>                    'aws_access_key_id=AK;aws_secret_access_key=SK'\<newline>                    region 'eu-west-1'\<newline>                    ;\<newline>        ''
            \<in> set (statements q))
   \<and> execute example_env (orders_op\<lparr>load_method := ''APPEND''\<rparr>) =
       ([NewRedshiftSQLHook ''redshift_default'', S3GetConnection ''aws_default'',
         NewS3Hook (Some ''aws_default'') None, S3GetCredentials,
         LogInfo ''Executing COPY command...'',
         SqlRun (SqlStr ''\<newline>                    COPY public.orders \<newline>                    FROM 's3://lake/orders/2024'\<newline>                    credentials\<newline>                    'aws_access_key_id=AK;aws_secret_access_key=SK'\<newline>                    region 'eu-west-1'\<newline>                    ;\<newline>        '') False,
         LogInfo ''COPY command complete...''], Inr ())"
proof -
  let ?r = "orders_op\<lparr>aws_conn_id := Some ''aws_role'', load_method := ''APPEND''\<rparr>"
  let ?s = "orders_op\<lparr>load_method := ''APPEND''\<rparr>"
  have f: "fetch_conn example_env ?r =
      ([S3GetConnection ''aws_role''], Inr (Some [(''role_arn'', ''arn:aws:iam::1:role/load'')]))"
    by (simp add: fetch_conn_def example_env_def)
  have g: "fetch_conn example_env ?s =
      ([S3GetConnection ''aws_default''], Inr (Some [(''region'', ''eu-west-1'')]))"
    by (simp add: fetch_conn_def example_env_def orders_op_def)
  have mr: "load_method ?r \<in> set AVAILABLE_METHODS" and ms: "load_method ?s \<in> set AVAILABLE_METHODS"
    by (simp_all add: AVAILABLE_METHODS_def)
  have n: "extra_get (Some [(''region'', ''eu-west-1'')]) ''role_arn'' = None"
    by (simp add: extra_get_def)
  have c: "get_credentials example_env (aws_conn_id ?s) (verify ?s) =
      Inr \<lparr>access_key = ''AK'', secret_key = ''SK'', token = None\<rparr>"
    by (simp add: example_env_def)
  have role: "\<not> static_credentials_fetched (fst (execute example_env ?r))
     \<and> (\<exists>q. submitted (fst (execute example_env ?r)) = [q]
        \<and> ''\<newline>                    COPY public.orders \<newline>                    FROM 's3://lake/orders/2024'\<newline>                    credentials\<newline>                    'aws_iam_role=arn:aws:iam::1:role/load'\<newline>                    \<newline>                    ;\<newline>        ''
            \<in> set (statements q))"
    using role_arn_replaces_static_credentials [OF f mr]
    by (simp add: orders_op_def copy_destination_of_def destination_of_def truthy_def
        str_opt_def column_names_def region_info_of_def extra_get_def)
  have static: "(\<exists>rest. fst (execute example_env ?s) =
         NewRedshiftSQLHook ''redshift_default'' # S3GetConnection ''aws_default'' #
         NewS3Hook (Some ''aws_default'') None # S3GetCredentials # rest)
     \<and> (\<exists>q. submitted (fst (execute example_env ?s)) = [q]
        \<and> ''\<newline>                    COPY public.orders \<newline>                    FROM 's3://lake/orders/2024'\<newline>                    credentials\<newline>                    'aws_access_key_id=AK;aws_secret_access_key=SK'\<newline>                    region 'eu-west-1'\<newline>                    ;\<newline>        ''
            \<in> set (statements q))"
    using role_arn_replaces_static_credentials [OF g ms] n c
    by (simp add: orders_op_def copy_destination_of_def destination_of_def truthy_def
        str_opt_def column_names_def region_info_of_def extra_get_def new_hook_def
        use_redshift_data_def example_env_def)
  have er: "execute example_env ?r =
       ([NewRedshiftSQLHook ''redshift_default'', S3GetConnection ''aws_role'',
         LogInfo ''Executing COPY command...'',
         SqlRun (SqlStr ''\<newline>                    COPY public.orders \<newline>                    FROM 's3://lake/orders/2024'\<newline>                    credentials\<newline>                    'aws_iam_role=arn:aws:iam::1:role/load'\<newline>                    \<newline>                    ;\<newline>        '') False,
         LogInfo ''COPY command complete...''], Inr ())"
    by (simp add: execute_def AVAILABLE_METHODS_def resolve_credentials_def fetch_conn_def
        region_info_of_def extra_get_def load_def plan_sql_def copy_statement_of_def
        copy_destination_of_def destination_of_def truthy_def str_opt_def build_copy_query_def
        column_names_def submit_def use_redshift_data_def new_hook_def orders_op_def
        example_env_def)
  have es: "execute example_env ?s =
       ([NewRedshiftSQLHook ''redshift_default'', S3GetConnection ''aws_default'',
         NewS3Hook (Some ''aws_default'') None, S3GetCredentials,
         LogInfo ''Executing COPY command...'',
         SqlRun (SqlStr ''\<newline>                    COPY public.orders \<newline>                    FROM 's3://lake/orders/2024'\<newline>                    credentials\<newline>                    'aws_access_key_id=AK;aws_secret_access_key=SK'\<newline>                    region 'eu-west-1'\<newline>                    ;\<newline>        '') False,
         LogInfo ''COPY command complete...''], Inr ())"
    by (simp add: execute_def AVAILABLE_METHODS_def resolve_credentials_def fetch_conn_def
        region_info_of_def extra_get_def load_def plan_sql_def copy_statement_of_def
        copy_destination_of_def destination_of_def truthy_def str_opt_def build_copy_query_def
        column_names_def submit_def use_redshift_data_def new_hook_def orders_op_def
        example_env_def)
  from f role er n static es show ?thesis by blast
qed

section \<open>Round trip of the COPY text\<close>

text \<open>
  C8. When the destination, the bucket and the key prefix are free of the delimiter
  characters (quotes and whitespace; for the bucket also the slash that ends it), and the
  column names, being free of them too, hold no line break, re-parsing the compiled COPY
  statement gives back the destination, the bucket and the key prefix, whatever the
  credentials, region and options clauses are. Slashes and colons in the key prefix or the
  destination do no harm.
\<close>

theorem copy_round_trip:
  assumes "delimiter_free d"
    and "delimiter_free (s3_bucket self)" and "CHR ''/'' \<notin> set (s3_bucket self)"
    and "delimiter_free (s3_key self)"
    and "\<forall>n \<in> set (case column_list self of None \<Rightarrow> [] | Some cl \<Rightarrow> cl). CHR 0x0A \<notin> set n"
  shows "reparse_destination (build_copy_query self d c r opts) = d
       \<and> reparse_bucket (build_copy_query self d c r opts) = s3_bucket self
       \<and> reparse_key_prefix (build_copy_query self d c r opts) = s3_key self"
proof -
  from assms(3) have slash: "\<forall>x \<in> set (s3_bucket self). x \<noteq> CHR ''/''" by auto
  have dst: "reparse_destination (build_copy_query self d c r opts) = d"
    using delimiter_free_D(1) [OF assms(1)] by (rule reparse_destination_copy)
  have src: "reparse_source (build_copy_query self d c r opts) =
     s3_bucket self @ CHR ''/'' # s3_key self @ CHR 0x27 #
     ''\<newline>                    credentials'' @
     ''\<newline>                    '' @ [CHR 0x27] @ c @ [CHR 0x27] @
     ''\<newline>                    '' @ r @
     ''\<newline>                    '' @ opts @ '';'' @
     ''\<newline>        ''"
    using delimiter_free_D(2) [OF assms(1)] column_names_no_newline [OF assms(5)]
    by (rule reparse_source_copy)
  have bkt: "reparse_bucket (build_copy_query self d c r opts) = s3_bucket self"
    unfolding reparse_bucket_def src
    using takeWhile_until [OF slash] by simp
  have key: "reparse_key_prefix (build_copy_query self d c r opts) = s3_key self"
    unfolding reparse_key_prefix_def src
    using dropWhile_until [OF slash]
      takeWhile_until [OF delimiter_free_D(3) [OF assms(4)]] by simp
  from dst bkt key show ?thesis by simp
qed

theorem copy_round_trip_witness:
  "delimiter_free ''public.orders'' \<and> delimiter_free ''lake'' \<and> CHR ''/'' \<notin> set ''lake''
   \<and> delimiter_free ''orders/2024''
   \<and> reparse_destination (build_copy_query
        (orders_op\<lparr>column_list := Some [''id'', ''total'']\<rparr>)
        ''public.orders'' ''aws_iam_role=arn:aws:iam::1:role/load'' (''region 'eu-west-1'' @ [CHR 0x27]) ''CSV'')
       = ''public.orders''
   \<and> reparse_bucket (build_copy_query
        (orders_op\<lparr>column_list := Some [''id'', ''total'']\<rparr>)
        ''public.orders'' ''aws_iam_role=arn:aws:iam::1:role/load'' (''region 'eu-west-1'' @ [CHR 0x27]) ''CSV'')
       = ''lake''
   \<and> reparse_key_prefix (build_copy_query
        (orders_op\<lparr>column_list := Some [''id'', ''total'']\<rparr>)
        ''public.orders'' ''aws_iam_role=arn:aws:iam::1:role/load'' (''region 'eu-west-1'' @ [CHR 0x27]) ''CSV'')
       = ''orders/2024''"
proof -
  let ?op = "orders_op\<lparr>column_list := Some [''id'', ''total'']\<rparr>"
  have d: "delimiter_free ''public.orders''"
    by (simp add: delimiter_free_def delimiter_chars_def)
  have b: "delimiter_free (s3_bucket ?op)"
    by (simp add: delimiter_free_def delimiter_chars_def orders_op_def)
  have s: "CHR ''/'' \<notin> set (s3_bucket ?op)" by (simp add: orders_op_def)
  have k: "delimiter_free (s3_key ?op)"
    by (simp add: delimiter_free_def delimiter_chars_def orders_op_def)
  have n: "\<forall>n \<in> set (case column_list ?op of None \<Rightarrow> [] | Some cl \<Rightarrow> cl). CHR 0x0A \<notin> set n"
    by simp
  from copy_round_trip [OF d b s k n,
      of "''aws_iam_role=arn:aws:iam::1:role/load''" "''region 'eu-west-1'' @ [CHR 0x27]" "''CSV''"] d b s k
  show ?thesis by (simp add: orders_op_def)
qed

end
